theory Spec2Isabelle
  imports Main "HOL-Library.Word"
begin

section \<open>The process as the two harnesses see it\<close>

text \<open>
  The repository holds two wrappers around a submitted program:
  \<^verbatim>\<open>std/etc/PRO2/__judge_main.cc\<close> supplies \<^verbatim>\<open>main\<close> and calls the renamed entry point
  \<^verbatim>\<open>main__2\<close> inside a try block; \<^verbatim>\<open>std/etc/cc/stub.cc\<close> installs a terminate handler
  before \<^verbatim>\<open>main\<close> runs. Both turn an uncaught exception into \<^verbatim>\<open>raise(SIGUSR1)\<close> or
  \<^verbatim>\<open>raise(SIGUSR2)\<close>.

  The model is a shallow embedding with explicit state: a statement is a function from
  the process state to a \<open>flow\<close>, which says how the statement completed (normally,
  by an exception that is still propagating, or by the end of the process) and in which
  state.
\<close>

type_synonym c_int = "32 word"

datatype signal = SIGUSR1 | SIGUSR2

text \<open>
  What the process has arranged for a signal. The default action of both user signals is
  to terminate the process. \<open>SIG_HANDLER\<close> stands for a handler function installed
  with \<^verbatim>\<open>signal\<close> or \<^verbatim>\<open>sigaction\<close> that returns. Apart from the disposition, the
  process state holds the signal mask of the thread, \<open>blocked\<close>: both are inherited
  from the parent across \<^verbatim>\<open>exec\<close> and both can be changed by the submission.
\<close>

datatype disposition = SIG_DFL | SIG_IGN | SIG_HANDLER

text \<open>How the process ended, as the parent reads it from \<^verbatim>\<open>wait\<close>.\<close>

datatype status = Killed signal | Exited c_int

text \<open>
  A class is its name and its public, unambiguous base classes: those are the bases a
  handler can bind a reference to. A thrown value is an object of class type or a value
  of non-class type such as the \<^verbatim>\<open>int\<close> of \<^verbatim>\<open>throw 42\<close>.
\<close>

datatype cls = Class string "cls list"

datatype thrown = Obj cls | Scalar c_int

datatype ostream = Cout | Cerr

datatype terminate_handler = Default_terminate | Jutge_stub_on_terminate

record process =
  sync_stdio :: bool
  cin_tied :: "ostream option"
  terminate_hook :: terminate_handler
  current_exception :: "thrown option"
  disposition :: "signal \<Rightarrow> disposition"
  blocked :: "signal \<Rightarrow> bool"
  raised :: "signal list"

datatype 'a flow = Normal 'a process | Thrown thrown process | Ended status process

fun state_of :: "'a flow \<Rightarrow> process" where
  "state_of (Normal v p) = p"
| "state_of (Thrown x p) = p"
| "state_of (Ended st p) = p"

fun status_of :: "'a flow \<Rightarrow> status option" where
  "status_of (Normal v p) = None"
| "status_of (Thrown x p) = None"
| "status_of (Ended st p) = Some st"

text \<open>
  The signals raised while a statement ran: what its final state has logged beyond the
  log of the state \<open>p\<close> it started from.
\<close>

definition raised_since :: "process \<Rightarrow> 'a flow \<Rightarrow> signal list" where
  "raised_since p r = drop (length (raised p)) (raised (state_of r))"

section \<open>Library calls used by the harnesses\<close>

text \<open>
  \<^verbatim>\<open>ios_base::sync_with_stdio\<close> and \<^verbatim>\<open>cin.tie\<close> store the new setting and return the
  previous one.
\<close>

definition sync_with_stdio :: "bool \<Rightarrow> process \<Rightarrow> bool \<times> process" where
  "sync_with_stdio sync p = (sync_stdio p, p\<lparr>sync_stdio := sync\<rparr>)"

definition cin_tie :: "ostream option \<Rightarrow> process \<Rightarrow> ostream option \<times> process" where
  "cin_tie str p = (cin_tied p, p\<lparr>cin_tied := str\<rparr>)"

text \<open>
  The two statements \<^verbatim>\<open>ios_base::sync_with_stdio(false); cin.tie(0);\<close> that open both
  \<^verbatim>\<open>main\<close> (lines 16 and 17) and the initializer of the stub (lines 34 and 35). Both
  return values are discarded.
\<close>

definition desync_io :: "process \<Rightarrow> process" where
  "desync_io p = snd (cin_tie None (snd (sync_with_stdio False p)))"

text \<open>
  \<^verbatim>\<open>raise(sig)\<close> sends the signal to the calling thread. A signal that the thread has
  blocked is not delivered: it stays pending and the call returns 0, whatever the
  disposition. A signal that is not blocked is delivered before the call returns: under
  the default disposition the process is terminated by it and the call does not return;
  when the signal is ignored, or caught by a handler that returns, the call returns 0.
  The log \<open>raised\<close> records the call in every case.
\<close>

definition raise :: "signal \<Rightarrow> process \<Rightarrow> c_int flow" where
  "raise sg p =
     (let q = p\<lparr>raised := raised p @ [sg]\<rparr> in
      if blocked p sg then Normal 0 q
      else case disposition p sg of
        SIG_DFL \<Rightarrow> Ended (Killed sg) q
      | SIG_IGN \<Rightarrow> Normal 0 q
      | SIG_HANDLER \<Rightarrow> Normal 0 q)"

text \<open>\<^verbatim>\<open>std::_Exit(code)\<close> ends the process at once with the given status.\<close>

definition std_Exit :: "c_int \<Rightarrow> process \<Rightarrow> unit flow" where
  "std_Exit code p = Ended (Exited code) p"

text \<open>An expression statement: the value of the expression is discarded.\<close>

fun discard :: "'a flow \<Rightarrow> unit flow" where
  "discard (Normal v p) = Normal () p"
| "discard (Thrown x p) = Thrown x p"
| "discard (Ended st p) = Ended st p"

section \<open>Handlers\<close>

text \<open>
  A handler \<^verbatim>\<open>catch (T&)\<close> matches a thrown object whose class is \<open>T\<close> or has
  \<open>T\<close> among its bases, directly or not; it matches no value of non-class type.
  \<^verbatim>\<open>catch (...)\<close> matches everything.
\<close>

fun is_a :: "cls \<Rightarrow> string \<Rightarrow> bool" and any_is_a :: "cls list \<Rightarrow> string \<Rightarrow> bool" where
  "is_a (Class n bs) t = (n = t \<or> any_is_a bs t)"
| "any_is_a [] t = False"
| "any_is_a (b # bs) t = (is_a b t \<or> any_is_a bs t)"

datatype handler_type = ByRef string | CatchAll

fun handles :: "handler_type \<Rightarrow> thrown \<Rightarrow> bool" where
  "handles (ByRef t) (Obj c) = is_a c t"
| "handles (ByRef t) (Scalar v) = False"
| "handles CatchAll x = True"

text \<open>
  The handlers of a try block are tried in the order they are written; the first that
  matches runs. When none matches the exception goes on propagating.
\<close>

fun try_catch :: "(handler_type \<times> (process \<Rightarrow> 'a flow)) list \<Rightarrow> thrown \<Rightarrow> process \<Rightarrow> 'a flow" where
  "try_catch [] x p = Thrown x p"
| "try_catch ((t, h) # hs) x p = (if handles t x then h p else try_catch hs x p)"

section \<open>\<^verbatim>\<open>std/etc/PRO2/__judge_main.cc\<close>\<close>

text \<open>
  \<^verbatim>\<open>main__2\<close> is the submission's entry point, renamed by the build; it is a parameter.
  It may return a value, let an exception escape, or end the process itself. When a
  handler has run and returned, control leaves the try statement and reaches the closing
  brace of \<^verbatim>\<open>main\<close>, which returns 0 to the caller of \<^verbatim>\<open>main\<close>.
\<close>

definition main :: "(process \<Rightarrow> c_int flow) \<Rightarrow> process \<Rightarrow> c_int flow" where
  "main main__2 p =
     (case main__2 (desync_io p) of
        Normal v q \<Rightarrow> Normal v q
      | Ended st q \<Rightarrow> Ended st q
      | Thrown x q \<Rightarrow>
          (case try_catch
                  [(ByRef ''std::bad_alloc'', \<lambda>s. discard (raise SIGUSR1 s)),
                   (ByRef ''std::exception'', \<lambda>s. discard (raise SIGUSR2 s)),
                   (CatchAll, \<lambda>s. discard (raise SIGUSR2 s))] x q of
             Normal u r \<Rightarrow> Normal 0 r
           | Thrown y r \<Rightarrow> Thrown y r
           | Ended st r \<Rightarrow> Ended st r))"

section \<open>\<^verbatim>\<open>std/etc/cc/stub.cc\<close>\<close>

text \<open>
  The terminate handler. \<^verbatim>\<open>std::current_exception()\<close> is read from the process state;
  \<^verbatim>\<open>std::rethrow_exception(exc)\<close> throws the exception inside the try block, so the
  handlers are tried on it. Whatever leaves the if statement normally reaches
  \<^verbatim>\<open>std::_Exit(0)\<close>.
\<close>

definition jutge__stub__on_terminate :: "process \<Rightarrow> unit flow" where
  "jutge__stub__on_terminate p =
     (case (case current_exception p of
              None \<Rightarrow> Normal () p
            | Some exc \<Rightarrow>
                try_catch
                  [(ByRef ''std::bad_alloc'', \<lambda>s. discard (raise SIGUSR1 s)),
                   (ByRef ''std::exception'', \<lambda>s. discard (raise SIGUSR2 s)),
                   (CatchAll, \<lambda>s. discard (raise SIGUSR2 s))] exc p) of
        Normal u q \<Rightarrow> std_Exit 0 q
      | Thrown y q \<Rightarrow> Thrown y q
      | Ended st q \<Rightarrow> Ended st q)"

text \<open>
  The initializer that runs before \<^verbatim>\<open>main\<close>: it installs the handler, applies the I/O
  configuration and returns 999.
\<close>

definition jutge__stub__before_main :: "process \<Rightarrow> c_int \<times> process" where
  "jutge__stub__before_main p =
     (999, desync_io (p\<lparr>terminate_hook := Jutge_stub_on_terminate\<rparr>))"


section \<open>Concrete classes, states and submissions\<close>

text \<open>The part of the standard exception hierarchy that the handlers name.\<close>

definition std_exception :: cls where
  "std_exception = Class ''std::exception'' []"

definition std_bad_alloc :: cls where
  "std_bad_alloc = Class ''std::bad_alloc'' [std_exception]"

definition std_bad_array_new_length :: cls where
  "std_bad_array_new_length = Class ''std::bad_array_new_length'' [std_bad_alloc]"

definition std_runtime_error :: cls where
  "std_runtime_error = Class ''std::runtime_error'' [std_exception]"

text \<open>
  A process at start-up: the standard streams synchronized, \<^verbatim>\<open>cin\<close> tied to
  \<^verbatim>\<open>cout\<close>, the default terminate handler, no exception in flight, every signal at its
  default disposition and none blocked, nothing raised yet.
\<close>

definition startup :: process where
  "startup =
     \<lparr>sync_stdio = True, cin_tied = Some Cout, terminate_hook = Default_terminate,
      current_exception = None, disposition = (\<lambda>sg. SIG_DFL), blocked = (\<lambda>sg. False),
      raised = []\<rparr>"

text \<open>Start-up states in which the process has changed what the two user signals do.\<close>

definition usr_signals_ignored :: process where
  "usr_signals_ignored = startup\<lparr>disposition := (\<lambda>sg. SIG_IGN)\<rparr>"

definition usr_signals_handled :: process where
  "usr_signals_handled = startup\<lparr>disposition := (\<lambda>sg. SIG_HANDLER)\<rparr>"

text \<open>A start-up state with both user signals blocked and their dispositions left alone.\<close>

definition usr_signals_blocked :: process where
  "usr_signals_blocked = startup\<lparr>blocked := (\<lambda>sg. True)\<rparr>"

text \<open>
  The submission is not part of the harness. A function of the submission that calls
  another one outside any try block completes the way its callee does: a value comes
  back, an exception goes on unwinding, an ended process stays ended. \<open>nested n f\<close>
  is \<open>f\<close> reached through \<open>n\<close> such calls.
\<close>

definition call_through :: "(process \<Rightarrow> 'a flow) \<Rightarrow> process \<Rightarrow> 'a flow" where
  "call_through f p =
     (case f p of
        Normal v q \<Rightarrow> Normal v q
      | Thrown x q \<Rightarrow> Thrown x q
      | Ended st q \<Rightarrow> Ended st q)"

definition nested :: "nat \<Rightarrow> (process \<Rightarrow> 'a flow) \<Rightarrow> process \<Rightarrow> 'a flow" where
  "nested n f = (call_through ^^ n) f"

text \<open>
  The classification as the specification words it: resource exhaustion, that is
  \<^verbatim>\<open>std::bad_alloc\<close> or a class derived from it, gives signal A (\<^verbatim>\<open>SIGUSR1\<close>); anything
  else, a value of non-class type included, gives signal B (\<^verbatim>\<open>SIGUSR2\<close>).
\<close>

definition failure_classifier_spec :: "thrown \<Rightarrow> signal" where
  "failure_classifier_spec x =
     (case x of
        Obj c \<Rightarrow> if is_a c ''std::bad_alloc'' then SIGUSR1 else SIGUSR2
      | Scalar v \<Rightarrow> SIGUSR2)"

section \<open>Auxiliary facts\<close>

lemma call_through_id: "call_through f = f"
  by (rule ext) (simp add: call_through_def split: flow.splits)

lemma nested_id: "nested n f = f"
  unfolding nested_def by (induction n) (simp_all add: call_through_id)

lemma raise_default:
  "disposition p sg = SIG_DFL \<Longrightarrow> \<not> blocked p sg \<Longrightarrow>
     raise sg p = Ended (Killed sg) (p\<lparr>raised := raised p @ [sg]\<rparr>)"
  by (simp add: raise_def)

lemma raise_returns:
  "disposition p sg \<noteq> SIG_DFL \<or> blocked p sg \<Longrightarrow>
     raise sg p = Normal 0 (p\<lparr>raised := raised p @ [sg]\<rparr>)"
  by (auto simp add: raise_def Let_def split: disposition.splits)

lemma raise_cases:
  "raise sg p =
     (if disposition p sg = SIG_DFL \<and> \<not> blocked p sg
      then Ended (Killed sg) (p\<lparr>raised := raised p @ [sg]\<rparr>)
      else Normal 0 (p\<lparr>raised := raised p @ [sg]\<rparr>))"
  by (simp add: raise_default raise_returns)

lemma desync_io_fields:
  "desync_io p = p\<lparr>sync_stdio := False, cin_tied := None\<rparr>"
  by (simp add: desync_io_def cin_tie_def sync_with_stdio_def)

lemma desync_io_idem: "desync_io (desync_io p) = desync_io p"
  by (simp add: desync_io_fields)

text \<open>What the handlers of \<^verbatim>\<open>main\<close> do with an exception that escaped \<^verbatim>\<open>main__2\<close>.\<close>

lemma main_thrown:
  assumes "main__2 (desync_io p) = Thrown x q"
  shows "main main__2 p =
     (let sg = (if handles (ByRef ''std::bad_alloc'') x then SIGUSR1 else SIGUSR2);
          r = q\<lparr>raised := raised q @ [sg]\<rparr>
      in if disposition q sg = SIG_DFL \<and> \<not> blocked q sg then Ended (Killed sg) r else Normal 0 r)"
  using assms by (simp add: main_def raise_cases Let_def)

text \<open>What the terminate handler does with the exception in flight.\<close>

lemma on_terminate_thrown:
  assumes "current_exception p = Some x"
  shows "jutge__stub__on_terminate p =
     (let sg = (if handles (ByRef ''std::bad_alloc'') x then SIGUSR1 else SIGUSR2);
          r = p\<lparr>raised := raised p @ [sg]\<rparr>
      in if disposition p sg = SIG_DFL \<and> \<not> blocked p sg then Ended (Killed sg) r
         else Ended (Exited 0) r)"
  using assms by (simp add: jutge__stub__on_terminate_def std_Exit_def raise_cases Let_def)

lemma on_terminate_none:
  assumes "current_exception p = None"
  shows "jutge__stub__on_terminate p = Ended (Exited 0) p"
  using assms by (simp add: jutge__stub__on_terminate_def std_Exit_def)

lemma handles_bad_alloc_classifier:
  "(if handles (ByRef ''std::bad_alloc'') x then SIGUSR1 else SIGUSR2) = failure_classifier_spec x"
  by (cases x) (simp_all add: failure_classifier_spec_def)

section \<open>Classification of an escaping failure\<close>

text \<open>
  C1, as amended. When the failure that escapes is \<^verbatim>\<open>std::bad_alloc\<close> or an object of a
  class that has \<^verbatim>\<open>std::bad_alloc\<close> as a public, unambiguous base, which is what the
  handler \<^verbatim>\<open>catch (bad_alloc&)\<close> matches, both harnesses take the first handler: \<^verbatim>\<open>main\<close>
  and the terminate handler each raise \<^verbatim>\<open>SIGUSR1\<close> and no other signal, however many calls
  the exception unwound through on its way out of the submission. The process is then
  terminated by \<^verbatim>\<open>SIGUSR1\<close> whenever, at the moment of the raise, that signal has its
  default disposition and is not blocked.
\<close>

theorem bad_alloc_raises_SIGUSR1:
  assumes "handles (ByRef ''std::bad_alloc'') x"
  shows "(body (desync_io p) = Thrown x q \<longrightarrow>
            raised_since q (main (nested n body) p) = [SIGUSR1] \<and>
            (disposition q SIGUSR1 = SIG_DFL \<and> \<not> blocked q SIGUSR1 \<longrightarrow>
               main (nested n body) p = Ended (Killed SIGUSR1) (q\<lparr>raised := raised q @ [SIGUSR1]\<rparr>))) \<and>
         (current_exception s = Some x \<longrightarrow>
            raised_since s (jutge__stub__on_terminate s) = [SIGUSR1] \<and>
            (disposition s SIGUSR1 = SIG_DFL \<and> \<not> blocked s SIGUSR1 \<longrightarrow>
               jutge__stub__on_terminate s = Ended (Killed SIGUSR1) (s\<lparr>raised := raised s @ [SIGUSR1]\<rparr>)))"
proof (intro conjI impI)
  assume b: "body (desync_io p) = Thrown x q"
  from b main_thrown [of body p x q] assms
  show "raised_since q (main (nested n body) p) = [SIGUSR1]"
    by (simp add: nested_id raised_since_def Let_def)
  assume "disposition q SIGUSR1 = SIG_DFL \<and> \<not> blocked q SIGUSR1"
  with b main_thrown [of body p x q] assms
  show "main (nested n body) p = Ended (Killed SIGUSR1) (q\<lparr>raised := raised q @ [SIGUSR1]\<rparr>)"
    by (simp add: nested_id Let_def)
next
  assume c: "current_exception s = Some x"
  from on_terminate_thrown [OF c] assms
  show "raised_since s (jutge__stub__on_terminate s) = [SIGUSR1]"
    by (simp add: raised_since_def Let_def)
  assume "disposition s SIGUSR1 = SIG_DFL \<and> \<not> blocked s SIGUSR1"
  with on_terminate_thrown [OF c] assms
  show "jutge__stub__on_terminate s = Ended (Killed SIGUSR1) (s\<lparr>raised := raised s @ [SIGUSR1]\<rparr>)"
    by (simp add: Let_def)
qed

text \<open>
  An instance: \<^verbatim>\<open>std::bad_array_new_length\<close>, thrown three calls deep, in a process that
  left the signals alone.
\<close>

theorem bad_alloc_raises_SIGUSR1_witness:
  "handles (ByRef ''std::bad_alloc'') (Obj std_bad_array_new_length) \<and>
   raised_since (desync_io startup)
     (main (nested 3 (Thrown (Obj std_bad_array_new_length))) startup) = [SIGUSR1] \<and>
   main (nested 3 (Thrown (Obj std_bad_array_new_length))) startup =
     Ended (Killed SIGUSR1) (startup\<lparr>sync_stdio := False, cin_tied := None, raised := [SIGUSR1]\<rparr>) \<and>
   raised_since (startup\<lparr>current_exception := Some (Obj std_bad_array_new_length)\<rparr>)
     (jutge__stub__on_terminate (startup\<lparr>current_exception := Some (Obj std_bad_array_new_length)\<rparr>)) =
     [SIGUSR1] \<and>
   jutge__stub__on_terminate (startup\<lparr>current_exception := Some (Obj std_bad_array_new_length)\<rparr>) =
     Ended (Killed SIGUSR1)
       (startup\<lparr>current_exception := Some (Obj std_bad_array_new_length), raised := [SIGUSR1]\<rparr>)"
proof -
  have h: "handles (ByRef ''std::bad_alloc'') (Obj std_bad_array_new_length)"
    by (simp add: std_bad_array_new_length_def std_bad_alloc_def std_exception_def)
  have b: "Thrown (Obj std_bad_array_new_length) (desync_io startup) =
      Thrown (Obj std_bad_array_new_length) (desync_io startup)"
    by simp
  have d1: "disposition (desync_io startup) SIGUSR1 = SIG_DFL \<and> \<not> blocked (desync_io startup) SIGUSR1"
    by (simp add: desync_io_fields startup_def)
  have c: "current_exception (startup\<lparr>current_exception := Some (Obj std_bad_array_new_length)\<rparr>) =
      Some (Obj std_bad_array_new_length)"
    by simp
  have d2: "disposition (startup\<lparr>current_exception := Some (Obj std_bad_array_new_length)\<rparr>) SIGUSR1 = SIG_DFL \<and>
      \<not> blocked (startup\<lparr>current_exception := Some (Obj std_bad_array_new_length)\<rparr>) SIGUSR1"
    by (simp add: startup_def)
  have u1: "desync_io startup\<lparr>raised := raised (desync_io startup) @ [SIGUSR1]\<rparr> =
      startup\<lparr>sync_stdio := False, cin_tied := None, raised := [SIGUSR1]\<rparr>"
    by (simp add: desync_io_fields startup_def)
  have u2: "startup\<lparr>current_exception := Some (Obj std_bad_array_new_length)\<rparr>
        \<lparr>raised := raised (startup\<lparr>current_exception := Some (Obj std_bad_array_new_length)\<rparr>) @ [SIGUSR1]\<rparr> =
      startup\<lparr>current_exception := Some (Obj std_bad_array_new_length), raised := [SIGUSR1]\<rparr>"
    by (simp add: startup_def)
  from bad_alloc_raises_SIGUSR1 [OF h, of "Thrown (Obj std_bad_array_new_length)" startup
      "desync_io startup" 3 "startup\<lparr>current_exception := Some (Obj std_bad_array_new_length)\<rparr>"]
    h b d1 c d2
  show ?thesis unfolding u1 u2 by blast
qed

text \<open>
  The process does not end by \<^verbatim>\<open>SIGUSR1\<close> in every case: where the signal is ignored,
  \<^verbatim>\<open>raise\<close> returns, and the terminate handler goes on to \<^verbatim>\<open>std::_Exit(0)\<close>. The
  process has then exited with status 0 after a \<^verbatim>\<open>std::bad_alloc\<close>. The same happens
  where the signal is blocked, or caught by a handler that returns.
\<close>

theorem ignored_SIGUSR1_counterexample:
  "handles (ByRef ''std::bad_alloc'') (Obj std_bad_alloc) \<and>
   jutge__stub__on_terminate (usr_signals_ignored\<lparr>current_exception := Some (Obj std_bad_alloc)\<rparr>) =
     Ended (Exited 0)
       (usr_signals_ignored\<lparr>current_exception := Some (Obj std_bad_alloc), raised := [SIGUSR1]\<rparr>)"
  by (simp add: jutge__stub__on_terminate_def raise_def std_Exit_def usr_signals_ignored_def
      startup_def std_bad_alloc_def std_exception_def)

text \<open>
  C2. Every other escaping failure, an object that the handler \<^verbatim>\<open>catch (bad_alloc&)\<close>
  does not match or a value that is no object at all, reaches the second or the third
  handler: both harnesses raise \<^verbatim>\<open>SIGUSR2\<close>, exactly once and nothing else, so no such
  failure passes without a signal.
\<close>

theorem other_failure_raises_SIGUSR2:
  assumes "\<not> handles (ByRef ''std::bad_alloc'') x"
  shows "(body (desync_io p) = Thrown x q \<longrightarrow>
            raised_since q (main (nested n body) p) = [SIGUSR2]) \<and>
         (current_exception s = Some x \<longrightarrow>
            raised_since s (jutge__stub__on_terminate s) = [SIGUSR2])"
proof (intro conjI impI)
  assume b: "body (desync_io p) = Thrown x q"
  from b main_thrown [of body p x q] assms
  show "raised_since q (main (nested n body) p) = [SIGUSR2]"
    by (simp add: nested_id raised_since_def Let_def)
next
  assume c: "current_exception s = Some x"
  from on_terminate_thrown [OF c] assms
  show "raised_since s (jutge__stub__on_terminate s) = [SIGUSR2]"
    by (simp add: raised_since_def Let_def)
qed

text \<open>
  An instance: \<^verbatim>\<open>throw 42\<close>, three calls deep under \<^verbatim>\<open>main\<close>, and in flight when the
  terminate handler runs in a process that has blocked the signal.
\<close>

theorem other_failure_raises_SIGUSR2_witness:
  "\<not> handles (ByRef ''std::bad_alloc'') (Scalar 42) \<and>
   raised_since (desync_io startup) (main (nested 3 (Thrown (Scalar 42))) startup) = [SIGUSR2] \<and>
   raised_since (usr_signals_blocked\<lparr>current_exception := Some (Scalar 42)\<rparr>)
     (jutge__stub__on_terminate (usr_signals_blocked\<lparr>current_exception := Some (Scalar 42)\<rparr>)) = [SIGUSR2]"
proof -
  have h: "\<not> handles (ByRef ''std::bad_alloc'') (Scalar 42)" by simp
  have b: "Thrown (Scalar 42) (desync_io startup) = Thrown (Scalar 42) (desync_io startup)"
    by simp
  have c: "current_exception (usr_signals_blocked\<lparr>current_exception := Some (Scalar 42)\<rparr>) = Some (Scalar 42)"
    by simp
  from other_failure_raises_SIGUSR2 [OF h, of "Thrown (Scalar 42)" startup "desync_io startup" 3
      "usr_signals_blocked\<lparr>current_exception := Some (Scalar 42)\<rparr>"] h b c
  show ?thesis by blast
qed

text \<open>
  C8. The two harnesses select the same signal for the same failure, and it is the one
  the specification's classification names: the handlers of \<^verbatim>\<open>main\<close>, reached by an
  exception that unwound out of \<^verbatim>\<open>main__2\<close>, and the handlers of the terminate handler,
  reached by rethrowing the exception in flight, both raise the signal of
  \<open>failure_classifier_spec\<close>.
\<close>

theorem harnesses_classify_alike:
  "body (desync_io p) = Thrown x q \<Longrightarrow> current_exception s = Some x \<Longrightarrow>
     raised_since q (main (nested n body) p) = [failure_classifier_spec x] \<and>
     raised_since s (jutge__stub__on_terminate s) = [failure_classifier_spec x]"
  using main_thrown [of body p x q] on_terminate_thrown [of s x]
  by (simp add: nested_id raised_since_def Let_def handles_bad_alloc_classifier)

theorem harnesses_classify_alike_witness:
  "raised_since (desync_io startup) (main (nested 2 (Thrown (Obj std_bad_alloc))) startup) = [SIGUSR1] \<and>
   raised_since (usr_signals_handled\<lparr>current_exception := Some (Obj std_bad_alloc)\<rparr>)
     (jutge__stub__on_terminate (usr_signals_handled\<lparr>current_exception := Some (Obj std_bad_alloc)\<rparr>)) =
     [SIGUSR1]"
proof -
  have c: "failure_classifier_spec (Obj std_bad_alloc) = SIGUSR1"
    by (simp add: failure_classifier_spec_def std_bad_alloc_def)
  have h1: "Thrown (Obj std_bad_alloc) (desync_io startup) = Thrown (Obj std_bad_alloc) (desync_io startup)"
    by simp
  have h2: "current_exception (usr_signals_handled\<lparr>current_exception := Some (Obj std_bad_alloc)\<rparr>) =
      Some (Obj std_bad_alloc)"
    by simp
  from harnesses_classify_alike [of "Thrown (Obj std_bad_alloc)" startup "Obj std_bad_alloc"
      "desync_io startup" "usr_signals_handled\<lparr>current_exception := Some (Obj std_bad_alloc)\<rparr>" 2] h1 h2
  show ?thesis
    unfolding c by blast
qed

section \<open>Normal return\<close>

text \<open>
  C3. When \<^verbatim>\<open>main__2\<close> returns normally with the value \<open>v\<close>, \<^verbatim>\<open>main\<close> returns
  \<open>v\<close> unchanged, in the state \<^verbatim>\<open>main__2\<close> left.
\<close>

theorem main_returns_value_unchanged:
  "main__2 (desync_io p) = Normal v q \<Longrightarrow> main main__2 p = Normal v q"
  by (simp add: main_def)

theorem main_returns_value_unchanged_witness:
  "main (Normal 7) startup = Normal 7 (desync_io startup)"
  using main_returns_value_unchanged [of "Normal 7" startup 7 "desync_io startup"] by simp

section \<open>After the signal\<close>

text \<open>
  C4. \<^verbatim>\<open>main\<close> has no statement after the handlers. With \<^verbatim>\<open>SIGUSR1\<close> ignored and
  \<^verbatim>\<open>main__2\<close> throwing \<^verbatim>\<open>std::bad_alloc\<close>, \<^verbatim>\<open>raise(SIGUSR1)\<close> returns, control leaves
  the handler, and \<^verbatim>\<open>main\<close> returns 0 to its caller: it does not halt the process after
  signaling.
\<close>

theorem main_returns_after_ignored_signal:
  "main (Thrown (Obj std_bad_alloc)) usr_signals_ignored =
     Normal 0 (usr_signals_ignored\<lparr>sync_stdio := False, cin_tied := None, raised := [SIGUSR1]\<rparr>)"
  by (simp add: main_def raise_def desync_io_fields usr_signals_ignored_def startup_def
      std_bad_alloc_def std_exception_def)

text \<open>
  C5. The terminate handler never returns and never lets an exception out: every call
  ends the process, by \<^verbatim>\<open>std::_Exit(0)\<close> or by a raised signal whose disposition is the
  default one.
\<close>

theorem on_terminate_never_returns:
  "\<exists>st q. jutge__stub__on_terminate p = Ended st q \<and>
     (st = Exited 0 \<or> (\<exists>sg. st = Killed sg \<and> disposition p sg = SIG_DFL))"
proof (cases "current_exception p")
  case None
  then show ?thesis by (simp add: on_terminate_none)
next
  case (Some x)
  then show ?thesis by (simp add: on_terminate_thrown Let_def)
qed

theorem on_terminate_never_returns_witness:
  "\<exists>st q. jutge__stub__on_terminate (usr_signals_ignored\<lparr>current_exception := Some (Scalar 42)\<rparr>) = Ended st q \<and>
     (st = Exited 0 \<or>
      (\<exists>sg. st = Killed sg \<and>
         disposition (usr_signals_ignored\<lparr>current_exception := Some (Scalar 42)\<rparr>) sg = SIG_DFL))"
  by (rule on_terminate_never_returns)

text \<open>
  C6. Called with no exception in flight, the terminate handler ends the process with
  status 0, leaves the state as it was, and raises no signal.
\<close>

theorem on_terminate_no_exception:
  "current_exception p = None \<Longrightarrow>
     jutge__stub__on_terminate p = Ended (Exited 0) p \<and>
     raised_since p (jutge__stub__on_terminate p) = []"
  by (simp add: on_terminate_none raised_since_def)

theorem on_terminate_no_exception_witness:
  "current_exception usr_signals_handled = None \<and>
   jutge__stub__on_terminate usr_signals_handled = Ended (Exited 0) usr_signals_handled \<and>
   raised_since usr_signals_handled (jutge__stub__on_terminate usr_signals_handled) = []"
proof -
  have h: "current_exception usr_signals_handled = None"
    by (simp add: usr_signals_handled_def startup_def)
  from on_terminate_no_exception [OF h] h show ?thesis by blast
qed

text \<open>
  C10. When the signal that the terminate handler raises for the exception in flight does
  not terminate the process, the handler falls through to \<^verbatim>\<open>std::_Exit(0)\<close>: the process
  exits with status 0, the status of the call with no exception in flight.
\<close>

theorem on_terminate_exit_0_when_signal_not_fatal:
  assumes "current_exception p = Some x"
      and "disposition p (if handles (ByRef ''std::bad_alloc'') x then SIGUSR1 else SIGUSR2) \<noteq> SIG_DFL"
  shows "jutge__stub__on_terminate p =
           Ended (Exited 0)
             (p\<lparr>raised := raised p @ [if handles (ByRef ''std::bad_alloc'') x then SIGUSR1 else SIGUSR2]\<rparr>) \<and>
         status_of (jutge__stub__on_terminate p) =
           status_of (jutge__stub__on_terminate (p\<lparr>current_exception := None\<rparr>))"
  using assms on_terminate_thrown [of p x] on_terminate_none [of "p\<lparr>current_exception := None\<rparr>"]
  by (simp add: Let_def)

theorem on_terminate_exit_0_when_signal_not_fatal_witness:
  "jutge__stub__on_terminate (usr_signals_handled\<lparr>current_exception := Some (Obj std_runtime_error)\<rparr>) =
     Ended (Exited 0)
       (usr_signals_handled\<lparr>current_exception := Some (Obj std_runtime_error), raised := [SIGUSR2]\<rparr>) \<and>
   status_of (jutge__stub__on_terminate (usr_signals_handled\<lparr>current_exception := Some (Obj std_runtime_error)\<rparr>)) =
     status_of (jutge__stub__on_terminate (usr_signals_handled\<lparr>current_exception := None\<rparr>))"
proof -
  have n: "\<not> handles (ByRef ''std::bad_alloc'') (Obj std_runtime_error)"
    by (simp add: std_runtime_error_def std_exception_def)
  have h1: "current_exception (usr_signals_handled\<lparr>current_exception := Some (Obj std_runtime_error)\<rparr>) =
      Some (Obj std_runtime_error)"
    by simp
  have h2: "disposition (usr_signals_handled\<lparr>current_exception := Some (Obj std_runtime_error)\<rparr>)
      (if handles (ByRef ''std::bad_alloc'') (Obj std_runtime_error) then SIGUSR1 else SIGUSR2) \<noteq> SIG_DFL"
    by (simp add: usr_signals_handled_def startup_def)
  have e: "(if handles (ByRef ''std::bad_alloc'') (Obj std_runtime_error) then SIGUSR1 else SIGUSR2) = SIGUSR2"
    using n by simp
  have u: "usr_signals_handled\<lparr>current_exception := Some (Obj std_runtime_error)\<rparr>
        \<lparr>raised := raised (usr_signals_handled\<lparr>current_exception := Some (Obj std_runtime_error)\<rparr>) @ [SIGUSR2]\<rparr> =
      usr_signals_handled\<lparr>current_exception := Some (Obj std_runtime_error), raised := [SIGUSR2]\<rparr>"
    by (simp add: usr_signals_handled_def startup_def)
  have v: "usr_signals_handled\<lparr>current_exception := Some (Obj std_runtime_error), current_exception := None\<rparr> =
      usr_signals_handled\<lparr>current_exception := None\<rparr>"
    by simp
  from on_terminate_exit_0_when_signal_not_fatal [OF h1 h2] show ?thesis
    unfolding e u v .
qed

section \<open>One signal per execution\<close>

text \<open>
  C7, as amended. Neither harness raises more than one signal in an execution. A normal
  return of \<^verbatim>\<open>main__2\<close> is passed on with no signal raised. Under either harness a
  raised signal that is fatal, that is, one at its default disposition and not blocked,
  ends the process there, in the state right after the raise. In the terminate handler a
  raised signal that is not fatal (ignored, caught by a handler that returns, or blocked)
  is followed by the exit with status 0 and by nothing else.
\<close>

theorem one_signal_then_end:
  "length (raised_since (state_of (main__2 (desync_io p))) (main main__2 p)) \<le> 1 \<and>
   length (raised_since s (jutge__stub__on_terminate s)) \<le> 1 \<and>
   (main__2 (desync_io p) = Normal v q \<longrightarrow>
      main main__2 p = Normal v q \<and> raised_since q (main main__2 p) = []) \<and>
   (body (desync_io p1) = Thrown x q1 \<and> disposition q1 sg1 = SIG_DFL \<and> \<not> blocked q1 sg1 \<and>
    raised_since q1 (main body p1) = [sg1] \<longrightarrow>
      main body p1 = Ended (Killed sg1) (q1\<lparr>raised := raised q1 @ [sg1]\<rparr>)) \<and>
   (disposition s2 sg2 = SIG_DFL \<and> \<not> blocked s2 sg2 \<and>
    raised_since s2 (jutge__stub__on_terminate s2) = [sg2] \<longrightarrow>
      jutge__stub__on_terminate s2 = Ended (Killed sg2) (s2\<lparr>raised := raised s2 @ [sg2]\<rparr>)) \<and>
   ((disposition s3 sg3 \<noteq> SIG_DFL \<or> blocked s3 sg3) \<and>
    raised_since s3 (jutge__stub__on_terminate s3) = [sg3] \<longrightarrow>
      jutge__stub__on_terminate s3 = Ended (Exited 0) (s3\<lparr>raised := raised s3 @ [sg3]\<rparr>))"
proof (intro conjI impI)
  show "length (raised_since (state_of (main__2 (desync_io p))) (main main__2 p)) \<le> 1"
  proof (cases "main__2 (desync_io p)")
    case (Normal v' q')
    then show ?thesis by (simp add: main_def raised_since_def)
  next
    case (Thrown x' q')
    from main_thrown [of main__2 p x' q'] Thrown show ?thesis
      by (simp add: raised_since_def Let_def)
  next
    case (Ended st q')
    then show ?thesis by (simp add: main_def raised_since_def)
  qed
next
  show "length (raised_since s (jutge__stub__on_terminate s)) \<le> 1"
  proof (cases "current_exception s")
    case None
    then show ?thesis by (simp add: on_terminate_none raised_since_def)
  next
    case (Some x')
    then show ?thesis by (simp add: on_terminate_thrown raised_since_def Let_def)
  qed
next
  assume "main__2 (desync_io p) = Normal v q"
  then show "main main__2 p = Normal v q" by (simp add: main_def)
next
  assume "main__2 (desync_io p) = Normal v q"
  then show "raised_since q (main main__2 p) = []" by (simp add: main_def raised_since_def)
next
  assume a: "body (desync_io p1) = Thrown x q1 \<and> disposition q1 sg1 = SIG_DFL \<and> \<not> blocked q1 sg1 \<and>
    raised_since q1 (main body p1) = [sg1]"
  from a main_thrown [of body p1 x q1]
  show "main body p1 = Ended (Killed sg1) (q1\<lparr>raised := raised q1 @ [sg1]\<rparr>)"
    by (auto simp add: raised_since_def Let_def split: if_splits)
next
  assume a: "disposition s2 sg2 = SIG_DFL \<and> \<not> blocked s2 sg2 \<and>
    raised_since s2 (jutge__stub__on_terminate s2) = [sg2]"
  show "jutge__stub__on_terminate s2 = Ended (Killed sg2) (s2\<lparr>raised := raised s2 @ [sg2]\<rparr>)"
  proof (cases "current_exception s2")
    case None
    with a show ?thesis by (simp add: on_terminate_none raised_since_def)
  next
    case (Some x')
    with a on_terminate_thrown [of s2 x'] show ?thesis
      by (auto simp add: raised_since_def Let_def split: if_splits)
  qed
next
  assume a: "(disposition s3 sg3 \<noteq> SIG_DFL \<or> blocked s3 sg3) \<and>
    raised_since s3 (jutge__stub__on_terminate s3) = [sg3]"
  show "jutge__stub__on_terminate s3 = Ended (Exited 0) (s3\<lparr>raised := raised s3 @ [sg3]\<rparr>)"
  proof (cases "current_exception s3")
    case None
    with a show ?thesis by (simp add: on_terminate_none raised_since_def)
  next
    case (Some x')
    with a on_terminate_thrown [of s3 x'] show ?thesis
      by (auto simp add: raised_since_def Let_def split: if_splits)
  qed
qed

text \<open>
  An instance: a normal return of 7; \<^verbatim>\<open>std::runtime_error\<close> out of \<^verbatim>\<open>main__2\<close> and
  \<^verbatim>\<open>std::bad_alloc\<close> in the terminate handler with the signals left alone; and
  \<^verbatim>\<open>std::exception\<close> in the terminate handler with the signals blocked.
\<close>

theorem one_signal_then_end_witness:
  "main (Normal 7) startup = Normal 7 (desync_io startup) \<and>
   raised_since (desync_io startup) (main (Normal 7) startup) = [] \<and>
   main (Thrown (Obj std_runtime_error)) startup =
     Ended (Killed SIGUSR2) (desync_io startup\<lparr>raised := raised (desync_io startup) @ [SIGUSR2]\<rparr>) \<and>
   jutge__stub__on_terminate (startup\<lparr>current_exception := Some (Obj std_bad_alloc)\<rparr>) =
     Ended (Killed SIGUSR1)
       (startup\<lparr>current_exception := Some (Obj std_bad_alloc),
          raised := raised (startup\<lparr>current_exception := Some (Obj std_bad_alloc)\<rparr>) @ [SIGUSR1]\<rparr>) \<and>
   jutge__stub__on_terminate (usr_signals_blocked\<lparr>current_exception := Some (Obj std_exception)\<rparr>) =
     Ended (Exited 0)
       (usr_signals_blocked\<lparr>current_exception := Some (Obj std_exception),
          raised := raised (usr_signals_blocked\<lparr>current_exception := Some (Obj std_exception)\<rparr>) @ [SIGUSR2]\<rparr>)"
proof -
  have h0: "Normal 7 (desync_io startup) = Normal (7::c_int) (desync_io startup)" by simp
  have h1: "Thrown (Obj std_runtime_error) (desync_io startup) = Thrown (Obj std_runtime_error) (desync_io startup) \<and>
      disposition (desync_io startup) SIGUSR2 = SIG_DFL \<and> \<not> blocked (desync_io startup) SIGUSR2 \<and>
      raised_since (desync_io startup) (main (Thrown (Obj std_runtime_error)) startup) = [SIGUSR2]"
    by (simp add: main_def raise_def raised_since_def desync_io_fields startup_def
        std_runtime_error_def std_exception_def)
  have h2: "disposition (startup\<lparr>current_exception := Some (Obj std_bad_alloc)\<rparr>) SIGUSR1 = SIG_DFL \<and>
      \<not> blocked (startup\<lparr>current_exception := Some (Obj std_bad_alloc)\<rparr>) SIGUSR1 \<and>
      raised_since (startup\<lparr>current_exception := Some (Obj std_bad_alloc)\<rparr>)
        (jutge__stub__on_terminate (startup\<lparr>current_exception := Some (Obj std_bad_alloc)\<rparr>)) = [SIGUSR1]"
    by (simp add: jutge__stub__on_terminate_def raise_def raised_since_def startup_def
        std_bad_alloc_def std_exception_def)
  have h3: "(disposition (usr_signals_blocked\<lparr>current_exception := Some (Obj std_exception)\<rparr>) SIGUSR2 \<noteq> SIG_DFL \<or>
       blocked (usr_signals_blocked\<lparr>current_exception := Some (Obj std_exception)\<rparr>) SIGUSR2) \<and>
      raised_since (usr_signals_blocked\<lparr>current_exception := Some (Obj std_exception)\<rparr>)
        (jutge__stub__on_terminate (usr_signals_blocked\<lparr>current_exception := Some (Obj std_exception)\<rparr>)) = [SIGUSR2]"
    by (simp add: jutge__stub__on_terminate_def raise_def std_Exit_def raised_since_def
        usr_signals_blocked_def startup_def std_exception_def)
  from one_signal_then_end [of "Normal 7" startup
      "startup" 7 "desync_io startup"
      "Thrown (Obj std_runtime_error)" startup "Obj std_runtime_error" "desync_io startup" SIGUSR2
      "startup\<lparr>current_exception := Some (Obj std_bad_alloc)\<rparr>" SIGUSR1
      "usr_signals_blocked\<lparr>current_exception := Some (Obj std_exception)\<rparr>" SIGUSR2]
    h0 h1 h2 h3
  show ?thesis by blast
qed

text \<open>
  A raise is not always the last event: with \<^verbatim>\<open>SIGUSR2\<close> caught by a handler function
  that returns, the terminate handler called for \<^verbatim>\<open>throw 42\<close> raises \<^verbatim>\<open>SIGUSR2\<close> and
  then takes the exit with status 0.
\<close>

theorem handled_SIGUSR2_counterexample:
  "raised_since (usr_signals_handled\<lparr>current_exception := Some (Scalar 42)\<rparr>)
     (jutge__stub__on_terminate (usr_signals_handled\<lparr>current_exception := Some (Scalar 42)\<rparr>)) = [SIGUSR2] \<and>
   status_of (jutge__stub__on_terminate (usr_signals_handled\<lparr>current_exception := Some (Scalar 42)\<rparr>)) =
     Some (Exited 0)"
  by (simp add: jutge__stub__on_terminate_def raise_def std_Exit_def raised_since_def
      usr_signals_handled_def startup_def)

section \<open>The I/O configuration\<close>

text \<open>
  C9. Applying the I/O configuration \<open>n\<close> times, \<open>n\<close> at least 1, leaves the state
  that one application leaves. Neither \<^verbatim>\<open>main\<close> nor the initializer of the stub, which
  apply it themselves, can tell whether it had been applied before, and running the
  initializer a second time changes nothing.
\<close>

theorem desync_io_idempotent:
  "0 < n \<Longrightarrow>
     (desync_io ^^ n) p = desync_io p \<and>
     main main__2 ((desync_io ^^ n) p) = main main__2 p \<and>
     snd (jutge__stub__before_main ((desync_io ^^ n) p)) = snd (jutge__stub__before_main p) \<and>
     snd (jutge__stub__before_main (snd (jutge__stub__before_main p))) = snd (jutge__stub__before_main p)"
proof -
  assume n: "0 < n"
  have pow: "(desync_io ^^ k) (desync_io p) = desync_io p" for k
    by (induction k) (simp_all add: desync_io_idem)
  from n obtain k where k: "n = Suc k" by (cases n) auto
  have one: "(desync_io ^^ n) p = desync_io p"
    unfolding k by (simp add: funpow_swap1 pow)
  show ?thesis
    unfolding one
    by (simp add: main_def desync_io_idem jutge__stub__before_main_def desync_io_fields)
qed

theorem desync_io_idempotent_witness:
  "(0::nat) < 3 \<and>
   (desync_io ^^ 3) startup = desync_io startup \<and>
   main (Normal 7) ((desync_io ^^ 3) startup) = main (Normal 7) startup \<and>
   snd (jutge__stub__before_main ((desync_io ^^ 3) startup)) = snd (jutge__stub__before_main startup) \<and>
   snd (jutge__stub__before_main (snd (jutge__stub__before_main startup))) =
     snd (jutge__stub__before_main startup)"
proof -
  have h: "(0::nat) < 3" by simp
  from desync_io_idempotent [OF h, of startup "Normal 7"] h show ?thesis by blast
qed

end
